theory Spec2Isabelle
  imports Main
begin

section \<open>Python strings\<close>

text \<open>
  Python strings are modelled as \<^typ>\<open>string\<close>. The helpers below are exact on ASCII
  text, which is what every keyword, pattern and example of the agent consists of;
  a character outside ASCII is left alone by \<open>upper\<close> and is neither white space,
  digit nor word character.
\<close>

definition lower_letters :: string where
  "lower_letters = ''abcdefghijklmnopqrstuvwxyz''"

definition upper_letters :: string where
  "upper_letters = ''ABCDEFGHIJKLMNOPQRSTUVWXYZ''"

definition upper_char :: "char \<Rightarrow> char" where
  "upper_char c = (case map_of (zip lower_letters upper_letters) c of
                     Some u \<Rightarrow> u | None \<Rightarrow> c)"

text \<open>\<open>s.upper()\<close>\<close>

definition upper :: "string \<Rightarrow> string" where
  "upper s = map upper_char s"

text \<open>\<open>s.startswith(p)\<close>\<close>

fun startswith :: "string \<Rightarrow> string \<Rightarrow> bool" where
  "startswith s [] = True"
| "startswith [] (p # ps) = False"
| "startswith (c # cs) (p # ps) = (c = p \<and> startswith cs ps)"

text \<open>\<open>sub in s\<close>\<close>

fun contains :: "string \<Rightarrow> string \<Rightarrow> bool" where
  "contains [] sub = (sub = [])"
| "contains (c # cs) sub = (startswith (c # cs) sub \<or> contains cs sub)"

section \<open>Classifier: \<open>determine_bug_type\<close>\<close>

definition BUG_KEYWORDS :: "(string \<times> string list) list" where
  "BUG_KEYWORDS =
    [(''INDENTATION'',
        [''IndentationError'', ''unexpected indent'', ''unindent does not match'',
         ''expected an indented block'', ''E1'', ''W1'']),
     (''SYNTAX'',
        [''SyntaxError'', ''invalid syntax'', ''can't parse'', ''E999'',
         ''never closed'', ''expected'', ''was never closed'']),
     (''IMPORT'',
        [''ImportError'', ''ModuleNotFoundError'', ''No module named'',
         ''cannot import'', ''F401'', ''F811'']),
     (''TYPE_ERROR'',
        [''TypeError'', ''unsupported operand'', ''cannot concatenate'',
         ''must be str'', ''UnicodeDecodeError'', ''UnicodeEncodeError'']),
     (''LINTING'',
        [''F841'', ''F821'', ''F811'', ''F401'', ''W'', ''E2'', ''E3'', ''E5'',
         ''unused'', ''redefined'', ''undefined name'', ''ruff'', ''pyflakes'',
         ''line too long'', ''whitespace'']),
     (''LOGIC'',
        [''NameError'', ''AttributeError'', ''IndexError'', ''KeyError'',
         ''ValueError'', ''ZeroDivisionError'', ''RuntimeError'',
         ''RecursionError'', ''OverflowError'', ''AssertionError'',
         ''StopIteration'', ''PermissionError'', ''FileNotFoundError'',
         ''OSError'', ''MemoryError'', ''NotImplementedError'',
         ''FloatingPointError'', ''LookupError'', ''bare except'',
         ''unreachable'', ''off-by-one'', ''division by zero''])]"

text \<open>\<open>self.BUG_KEYWORDS.get(bug_type, [])\<close>\<close>

definition keywords_of :: "string \<Rightarrow> string list" where
  "keywords_of bug_type = (case map_of BUG_KEYWORDS bug_type of
                             Some kws \<Rightarrow> kws | None \<Rightarrow> [])"

text \<open>The tuple the classifier and the aggregator both iterate over.\<close>

definition bug_type_order :: "string list" where
  "bug_type_order =
     [''INDENTATION'', ''SYNTAX'', ''IMPORT'', ''TYPE_ERROR'', ''LINTING'', ''LOGIC'']"

text \<open>The inner loop: \<open>for kw in ...: if kw.upper() in msg: return bug_type\<close>.\<close>

fun any_keyword_in :: "string list \<Rightarrow> string \<Rightarrow> bool" where
  "any_keyword_in [] msg = False"
| "any_keyword_in (kw # kws) msg = (contains msg (upper kw) \<or> any_keyword_in kws msg)"

text \<open>The outer loop over the bug types, with the final \<open>return "LOGIC"\<close>.\<close>

fun scan_bug_types :: "string list \<Rightarrow> string \<Rightarrow> string" where
  "scan_bug_types [] msg = ''LOGIC''"
| "scan_bug_types (bug_type # rest) msg =
     (if any_keyword_in (keywords_of bug_type) msg then bug_type
      else scan_bug_types rest msg)"

definition determine_bug_type :: "string \<Rightarrow> string" where
  "determine_bug_type error_msg =
     (if error_msg = [] then ''LOGIC''
      else scan_bug_types bug_type_order (upper error_msg))"



section \<open>Findings\<close>

text \<open>
  A finding is the dictionary every scanner appends to its list, with the keys
  \<open>file\<close>, \<open>line\<close>, \<open>message\<close>, \<open>type\<close> and \<open>source\<close>. Line numbers are Python
  integers; the bug type is a plain string, as in the source.
\<close>

record finding =
  e_file :: string
  e_line :: int
  e_message :: string
  e_type :: string
  e_source :: string

section \<open>Aggregator: the merge loop of \<open>run_comprehensive_analysis\<close>\<close>

text \<open>
  \<open>s.replace(old, '')\<close>: every occurrence of \<open>old\<close> is deleted, scanning from the left
  without overlap. With an empty \<open>old\<close> Python inserts the (empty) replacement between
  all characters, which leaves \<open>s\<close> as it is.
\<close>

function remove_all :: "string \<Rightarrow> string \<Rightarrow> string" where
  "remove_all old [] = []"
| "remove_all old (c # cs) =
     (if old \<noteq> [] \<and> startswith (c # cs) old
      then remove_all old (drop (length old) (c # cs))
      else c # remove_all old cs)"
  by pat_completeness auto
termination
  by (relation "measure (\<lambda>(old, s). length s)") auto

text \<open>
  \<open>if self.clone_path and str(self.clone_path) in fp:
       fp = fp.replace(str(self.clone_path) + '/', '')\<close>,
  where \<open>cp\<close> is \<open>str(self.clone_path)\<close>; the clone path is set whenever the merge runs.
\<close>

definition normalize_path :: "string \<Rightarrow> string \<Rightarrow> string" where
  "normalize_path cp fp = (if contains fp cp then remove_all (cp @ ''/'') fp else fp)"

text \<open>\<open>'.ipynb' in fp or '/docstrings/' in fp or '/doc/' in fp\<close>\<close>

definition is_doc_path :: "string \<Rightarrow> bool" where
  "is_doc_path fp \<longleftrightarrow>
     contains fp ''.ipynb'' \<or> contains fp ''/docstrings/'' \<or> contains fp ''/doc/''"

text \<open>\<open>TYPE_PRIORITY = {t: i for i, t in enumerate((...))}\<close> and \<open>TYPE_PRIORITY.get(t, 99)\<close>\<close>

definition TYPE_PRIORITY :: "(string \<times> nat) list" where
  "TYPE_PRIORITY = map (\<lambda>(i, t). (t, i)) (enumerate 0 bug_type_order)"

definition type_priority :: "string \<Rightarrow> nat" where
  "type_priority t = (case map_of TYPE_PRIORITY t of Some i \<Rightarrow> i | None \<Rightarrow> 99)"

text \<open>
  The dictionary \<open>best\<close> keeps insertion order: \<open>best[key] = error\<close> appends a new key
  at the end and overwrites the value of a present key in place.
\<close>

fun dict_set :: "'k \<Rightarrow> 'v \<Rightarrow> ('k \<times> 'v) list \<Rightarrow> ('k \<times> 'v) list" where
  "dict_set k v [] = [(k, v)]"
| "dict_set k v ((k', v') # kvs) =
     (if k' = k then (k, v) # kvs else (k', v') # dict_set k v kvs)"

type_synonym best_dict = "((string \<times> int) \<times> finding) list"

text \<open>The loop \<open>for error in all_errors\<close>, with \<open>continue\<close> for notebook and doc paths.\<close>

fun merge_loop :: "string \<Rightarrow> finding list \<Rightarrow> best_dict \<Rightarrow> best_dict" where
  "merge_loop cp [] best = best"
| "merge_loop cp (error # rest) best =
     (let fp = normalize_path cp (e_file error) in
      if is_doc_path fp then merge_loop cp rest best
      else
        let error' = error\<lparr>e_file := fp\<rparr>;
            key = (fp, e_line error')
        in case map_of best key of
             None \<Rightarrow> merge_loop cp rest (dict_set key error' best)
           | Some prev \<Rightarrow>
               if type_priority (e_type error') < type_priority (e_type prev)
               then merge_loop cp rest (dict_set key error' best)
               else merge_loop cp rest best)"

text \<open>\<open>unique_errors = list(best.values())\<close>\<close>

definition unique_errors :: "string \<Rightarrow> finding list \<Rightarrow> finding list" where
  "unique_errors cp all_errors = map snd (merge_loop cp all_errors [])"

text \<open>
  The aggregation stage of \<open>run_comprehensive_analysis\<close>, applied to the concatenation
  \<open>all_errors\<close> of the five scanner streams; the result is
  \<open>list(itertools.islice(unique_errors, self.max_fixes))\<close>. The cap is a natural number:
  \<open>islice\<close> raises on a negative one.
\<close>

definition run_comprehensive_analysis :: "string \<Rightarrow> nat \<Rightarrow> finding list \<Rightarrow> finding list" where
  "run_comprehensive_analysis cp max_fixes all_errors =
     take max_fixes (unique_errors cp all_errors)"

text \<open>The key \<open>(fp, error.get("line", 0))\<close> of a finding, and a finding after normalization.\<close>

definition key_of :: "finding \<Rightarrow> string \<times> int" where
  "key_of e = (e_file e, e_line e)"

definition normalized :: "string \<Rightarrow> finding \<Rightarrow> finding" where
  "normalized cp e = e\<lparr>e_file := normalize_path cp (e_file e)\<rparr>"

text \<open>Example findings.\<close>

definition syntax_finding :: finding where
  "syntax_finding =
     \<lparr>e_file = ''/repo/app.py'', e_line = 3, e_message = ''SyntaxError: invalid syntax'',
      e_type = ''SYNTAX'', e_source = ''compile''\<rparr>"


text \<open>
  A file \<open>a/re/repo/po/b.py\<close> of a repository cloned into \<open>/repo\<close>: its relative path
  contains the clone path, and deleting \<open>/repo/\<close> from it leaves \<open>a/repo/b.py\<close>, which
  contains the clone path again.
\<close>

definition nested_clone_finding :: finding where
  "nested_clone_finding =
     \<lparr>e_file = ''a/re/repo/po/b.py'', e_line = 1, e_message = ''LOGIC: bare except'',
      e_type = ''LOGIC'', e_source = ''regex''\<rparr>"

definition plain_finding :: finding where
  "plain_finding =
     \<lparr>e_file = ''/repo/pkg/b.py'', e_line = 1, e_message = ''LOGIC: bare except'',
      e_type = ''LOGIC'', e_source = ''regex''\<rparr>"

section \<open>Fixes: \<open>FixResult\<close> and \<open>apply_fix\<close>\<close>

text \<open>Exceptions that leave a modelled function.\<close>

datatype py_error = RuntimeError_raised | TypeError_raised

definition NL :: char where
  "NL = CHR 0x0A"

text \<open>The dataclass \<open>FixResult\<close>; \<open>status\<close> is a plain string, \<open>"PENDING"\<close> by default.\<close>

record FixResult =
  fix_file :: string
  fix_bug_type :: string
  fix_line :: int
  fix_fix :: string
  fix_status :: string
  fix_original_error :: string

text \<open>
  The working copy as \<open>apply_fix\<close> sees it through \<open>self.clone_path / fix.file\<close>: a file
  is missing (\<open>exists()\<close> is false), present but failing to open or read, or a regular
  file with the list \<open>readlines()\<close> returns and a flag telling whether opening it for
  writing succeeds. A written file holds the list handed to \<open>writelines\<close>.
\<close>

datatype file_state = Missing | Unreadable | Regular "string list" bool

type_synonym file_system = "string \<Rightarrow> file_state"

text \<open>
  \<open>xs.insert(i, x)\<close>: a negative index counts from the end, and an index beyond either
  end is clamped.
\<close>

definition list_insert :: "int \<Rightarrow> 'a \<Rightarrow> 'a list \<Rightarrow> 'a list" where
  "list_insert i x xs =
     (let n = int (length xs);
          j = (if i < 0 then max 0 (i + n) else min i n)
      in take (nat j) xs @ [x] @ drop (nat j) xs)"

text \<open>
  \<open>apply_fix\<close> returns the boolean, the fix with its status as the call leaves it, and
  the working copy. The \<open>except Exception\<close> branch, the only place that assigns
  \<open>"FAILED"\<close>, is reached when reading or writing raises.
\<close>

definition apply_fix ::
  "string option \<Rightarrow> file_system \<Rightarrow> FixResult \<Rightarrow> py_error + (bool \<times> FixResult \<times> file_system)" where
  "apply_fix clone_path fs fix =
     (case clone_path of
        None \<Rightarrow> Inl RuntimeError_raised
      | Some cp \<Rightarrow>
          (case fs (fix_file fix) of
             Missing \<Rightarrow> Inr (False, fix, fs)
           | Unreadable \<Rightarrow> Inr (False, fix\<lparr>fix_status := ''FAILED''\<rparr>, fs)
           | Regular lines writable \<Rightarrow>
               if fix_line fix \<le> int (length lines) then
                 let comment = [NL] @ ''# AI-FIX ('' @ fix_bug_type fix @ ''): ''
                                 @ fix_fix fix @ [NL];
                     lines' = list_insert (fix_line fix - 1) comment lines
                 in if writable
                    then Inr (True, fix\<lparr>fix_status := ''APPLIED''\<rparr>,
                              fs(fix_file fix := Regular lines' writable))
                    else Inr (False, fix\<lparr>fix_status := ''FAILED''\<rparr>, fs)
               else Inr (False, fix, fs)))"

text \<open>A three-line file and a fix, as \<open>detect_and_fix\<close> creates it, for its line 5.\<close>

definition three_line_file :: file_system where
  "three_line_file = (\<lambda>name. if name = ''app.py''
      then Regular [''import os'' @ [NL], ''x = 1'' @ [NL], ''print(x)'' @ [NL]] True
      else Missing)"

definition out_of_range_fix :: FixResult where
  "out_of_range_fix = \<lparr>fix_file = ''app.py'', fix_bug_type = ''LOGIC'', fix_line = 5,
     fix_fix = ''review the code manually for correctness'', fix_status = ''DETECTED'',
     fix_original_error = ''LOGIC: bare except''\<rparr>"

section \<open>Dynamic Executor: \<open>_analyze_single_file\<close>\<close>

text \<open>The table of \<open>_map_exception_to_bug_type\<close> and its \<open>mapping.get(name, 'LOGIC')\<close>.\<close>

definition EXCEPTION_TYPES :: "(string \<times> string) list" where
  "EXCEPTION_TYPES =
    [(''IndentationError'', ''INDENTATION''),
     (''TabError'', ''INDENTATION''),
     (''SyntaxError'', ''SYNTAX''),
     (''ImportError'', ''IMPORT''),
     (''ModuleNotFoundError'', ''IMPORT''),
     (''TypeError'', ''TYPE_ERROR''),
     (''UnicodeDecodeError'', ''TYPE_ERROR''),
     (''UnicodeEncodeError'', ''TYPE_ERROR''),
     (''NameError'', ''LOGIC''),
     (''AttributeError'', ''LOGIC''),
     (''IndexError'', ''LOGIC''),
     (''KeyError'', ''LOGIC''),
     (''ValueError'', ''LOGIC''),
     (''ZeroDivisionError'', ''LOGIC''),
     (''RecursionError'', ''LOGIC''),
     (''FileNotFoundError'', ''LOGIC''),
     (''OSError'', ''LOGIC''),
     (''OverflowError'', ''LOGIC''),
     (''MemoryError'', ''LOGIC''),
     (''AssertionError'', ''LOGIC''),
     (''RuntimeError'', ''LOGIC''),
     (''NotImplementedError'', ''LOGIC''),
     (''StopIteration'', ''LOGIC''),
     (''PermissionError'', ''LOGIC''),
     (''FloatingPointError'', ''LOGIC''),
     (''LookupError'', ''LOGIC'')]"

definition map_exception_to_bug_type :: "string \<Rightarrow> string" where
  "map_exception_to_bug_type exception_name =
     (case map_of EXCEPTION_TYPES exception_name of Some t \<Rightarrow> t | None \<Rightarrow> ''LOGIC'')"

text \<open>
  One line of the runner's standard output as the collecting loop treats it.
  \<open>Skipped\<close>: the stripped line does not start with a brace, \<open>json.loads\<close> rejects
  it, or \<open>int\<close> raises \<open>ValueError\<close> on its line value; the loop goes on.
  \<open>Uncaught\<close>: a JSON object on which \<open>int\<close>, the hashing of the key or the slice
  \<open>msg[:60]\<close> raises \<open>TypeError\<close> (a \<open>null\<close> line, for one), which
  \<open>except (json.JSONDecodeError, ValueError)\<close> does not catch.
  \<open>Decoded\<close>: a JSON object whose \<open>file\<close>, \<open>exc\<close> and \<open>msg\<close> are strings and whose
  \<open>line\<close> is an integer, each possibly absent.
\<close>

record runner_record =
  r_file :: "string option"
  r_line :: "int option"
  r_exc :: "string option"
  r_msg :: "string option"

datatype stdout_line = Skipped | Uncaught | Decoded runner_record

text \<open>\<open>data.get('exc', 'RuntimeError')\<close>, \<open>data.get('msg', '')\<close>,
  \<open>int(data.get('line', 1))\<close> and \<open>data.get('file', rel_path)\<close>\<close>

definition get_exc :: "runner_record \<Rightarrow> string" where
  "get_exc d = (case r_exc d of Some e \<Rightarrow> e | None \<Rightarrow> ''RuntimeError'')"

definition get_msg :: "runner_record \<Rightarrow> string" where
  "get_msg d = (case r_msg d of Some m \<Rightarrow> m | None \<Rightarrow> [])"

definition get_line :: "runner_record \<Rightarrow> int" where
  "get_line d = (case r_line d of Some n \<Rightarrow> n | None \<Rightarrow> 1)"

definition get_file :: "string \<Rightarrow> runner_record \<Rightarrow> string" where
  "get_file rel_path d = (case r_file d of Some f \<Rightarrow> f | None \<Rightarrow> rel_path)"

text \<open>The dictionary appended to \<open>errors\<close>, and the key \<open>(rel_path, line, exc)\<close>.\<close>

definition dynamic_finding :: "string \<Rightarrow> runner_record \<Rightarrow> finding" where
  "dynamic_finding rel_path d =
     \<lparr>e_file = get_file rel_path d,
      e_line = get_line d,
      e_message = get_exc d @ '': '' @ get_msg d,
      e_type = map_exception_to_bug_type (get_exc d),
      e_source = ''dynamic''\<rparr>"

definition record_key :: "string \<Rightarrow> runner_record \<Rightarrow> string \<times> int \<times> string" where
  "record_key rel_path d = (rel_path, get_line d, get_exc d)"

text \<open>
  The loop over \<open>result.stdout.splitlines()\<close> with its set \<open>seen_in_file\<close>. An uncaught
  exception leaves \<open>_analyze_single_file\<close>, and the findings collected so far with it.
\<close>

fun collect_records ::
  "string \<Rightarrow> stdout_line list \<Rightarrow> (string \<times> int \<times> string) list \<Rightarrow> finding list
     \<Rightarrow> py_error + finding list" where
  "collect_records rel_path [] seen_in_file errors = Inr errors"
| "collect_records rel_path (Skipped # rest) seen_in_file errors =
     collect_records rel_path rest seen_in_file errors"
| "collect_records rel_path (Uncaught # rest) seen_in_file errors = Inl TypeError_raised"
| "collect_records rel_path (Decoded d # rest) seen_in_file errors =
     (let key = record_key rel_path d in
      if key \<in> set seen_in_file then collect_records rel_path rest seen_in_file errors
      else collect_records rel_path rest (key # seen_in_file)
             (errors @ [dynamic_finding rel_path d]))"

text \<open>
  \<open>func_names\<close>: the names of the \<open>FunctionDef\<close> nodes that are direct children of the
  module, those starting with an underscore left out, cut to the first twenty.
\<close>

definition func_names :: "string list \<Rightarrow> string list" where
  "func_names top_level_defs = take 20 (filter (\<lambda>name. \<not> startswith name ''_'') top_level_defs)"

text \<open>
  What a call \<open>fn()\<close> of the runner script does: it returns; it ends in \<open>SystemExit\<close>,
  \<open>KeyboardInterrupt\<close> or the one-second \<open>TimeoutError\<close>, which the runner passes
  over; the attribute is not callable; or it raises another exception, of class name
  \<open>exc\<close>, at line \<open>lineno\<close> of the frame the runner picks, with \<open>str(e)\<close> being \<open>msg\<close>.
\<close>

datatype call_outcome =
    Returns
  | Inconclusive
  | NotCallable
  | Raises string int string

text \<open>Loading the module ends normally, in \<open>SystemExit\<close>, or in an exception.\<close>

datatype load_outcome = Loaded | LoadExits | LoadFails string int string

text \<open>
  A source file as the dynamic pass meets it: whether \<open>compile\<close> accepts it, the names
  of its top-level function definitions in source order, and what loading it and
  calling a name does, each with the lines the code itself prints meanwhile.
\<close>

record py_module =
  m_compiles :: bool
  m_top_level_defs :: "string list"
  m_load :: "stdout_line list \<times> load_outcome"
  m_call :: "string \<Rightarrow> stdout_line list \<times> call_outcome"

text \<open>
  The two clocks of a run: how many iterations of the runner's loop pass the
  fifteen-second budget test, and whether \<open>_run_command\<close> timed out, in which case the
  captured output is empty.
\<close>

record run_limits =
  calls_within_budget :: nat
  command_timed_out :: bool

text \<open>\<open>print(json.dumps({"file": rel_path, "line": lineno, "exc": ..., "msg": str(e)[:200]}))\<close>\<close>

definition printed_record :: "string \<Rightarrow> string \<Rightarrow> int \<Rightarrow> string \<Rightarrow> stdout_line" where
  "printed_record rel_path exc lineno msg =
     Decoded \<lparr>r_file = Some rel_path, r_line = Some lineno, r_exc = Some exc,
              r_msg = Some (take 200 msg)\<rparr>"

text \<open>The standard output of the runner script.\<close>

definition call_stdout :: "string \<Rightarrow> py_module \<Rightarrow> string \<Rightarrow> stdout_line list" where
  "call_stdout rel_path m fname =
     (case m_call m fname of
        (printed, Raises exc lineno msg) \<Rightarrow> printed @ [printed_record rel_path exc lineno msg]
      | (printed, _) \<Rightarrow> printed)"

definition runner_stdout :: "string \<Rightarrow> py_module \<Rightarrow> run_limits \<Rightarrow> stdout_line list" where
  "runner_stdout rel_path m limits =
     (if command_timed_out limits then []
      else case m_load m of
             (printed, LoadFails exc lineno msg) \<Rightarrow>
               printed @ [printed_record rel_path exc lineno msg]
           | (printed, LoadExits) \<Rightarrow> printed
           | (printed, Loaded) \<Rightarrow>
               printed @ concat (map (call_stdout rel_path m)
                                  (take (calls_within_budget limits)
                                     (func_names (m_top_level_defs m)))))"

definition analyze_single_file ::
  "py_module \<Rightarrow> string \<Rightarrow> run_limits \<Rightarrow> py_error + finding list" where
  "analyze_single_file m rel_path limits =
     (if \<not> m_compiles m then Inr []
      else if func_names (m_top_level_defs m) = [] then Inr []
      else collect_records rel_path (runner_stdout rel_path m limits) [] [])"


text \<open>
  Deduplication as the specification words it: of the entries sharing a key, the first
  one stays.
\<close>

fun first_per_key :: "('a \<Rightarrow> 'k) \<Rightarrow> 'a list \<Rightarrow> 'a list" where
  "first_per_key key [] = []"
| "first_per_key key (x # xs) = x # first_per_key key (filter (\<lambda>y. key y \<noteq> key x) xs)"

text \<open>
  \<open>_make_fix\<close> of \<open>detect_and_fix\<close>; the description, which \<open>generate_fix_ai\<close> obtains
  from a language model or from heuristics, is a parameter.
\<close>

definition make_fix :: "finding \<Rightarrow> string \<Rightarrow> FixResult" where
  "make_fix error fix_desc =
     \<lparr>fix_file = e_file error,
      fix_bug_type = (if e_type error \<noteq> [] then e_type error
                      else determine_bug_type (e_message error)),
      fix_line = e_line error,
      fix_fix = fix_desc,
      fix_status = ''DETECTED'',
      fix_original_error = e_message error\<rparr>"

text \<open>
  Example modules. \<open>crowded_module\<close> defines twenty public functions that return and a
  twenty-first, \<open>boom\<close>, that divides by zero at line 42. \<open>small_module\<close> defines
  \<open>boom\<close> twice, so the runner calls it twice. \<open>printing_module\<close> is the file
  \<open>print('{"line": 0}')\<close> followed by \<open>def main(): pass\<close>.
\<close>

definition quiet :: "stdout_line list \<times> call_outcome" where
  "quiet = ([], Returns)"


definition ample :: run_limits where
  "ample = \<lparr>calls_within_budget = 100, command_timed_out = False\<rparr>"


definition printing_module :: py_module where
  "printing_module =
     \<lparr>m_compiles = True,
      m_top_level_defs = [''main''],
      m_load = ([Decoded \<lparr>r_file = None, r_line = Some 0, r_exc = None, r_msg = None\<rparr>], Loaded),
      m_call = (\<lambda>name. quiet)\<rparr>"

definition line_zero_finding :: finding where
  "line_zero_finding =
     \<lparr>e_file = ''m.py'', e_line = 0, e_message = ''RuntimeError: '',
      e_type = ''LOGIC'', e_source = ''dynamic''\<rparr>"

section \<open>White space, character classes and regular expressions\<close>

text \<open>
  The ASCII characters for which \<open>str.isspace\<close> holds, which are also what \<open>\s\<close>
  matches; the digits of \<open>\d\<close>; the characters of \<open>\w\<close>.
\<close>

definition space_chars :: string where
  "space_chars = [CHR 0x09, CHR 0x0A, CHR 0x0B, CHR 0x0C, CHR 0x0D,
                  CHR 0x1C, CHR 0x1D, CHR 0x1E, CHR 0x1F, CHR 0x20]"

definition digit_chars :: string where
  "digit_chars = ''0123456789''"

definition word_chars :: string where
  "word_chars = lower_letters @ upper_letters @ digit_chars @ ''_''"

text \<open>\<open>s.strip()\<close> and \<open>s.rstrip()\<close>\<close>

definition strip :: "string \<Rightarrow> string" where
  "strip s = rev (dropWhile (\<lambda>c. c \<in> set space_chars) (rev (dropWhile (\<lambda>c. c \<in> set space_chars) s)))"


text \<open>
  The patterns of the agent use a small part of Python's \<open>re\<close>: literals, character
  classes and their complements, sequence, alternation, greedy repetition, the anchors
  \<open>^\<close> and \<open>$\<close>, the word boundary \<open>\b\<close>, one-character negative lookbehind and
  lookahead, and one capturing group.
\<close>

datatype regex =
    Lit string
  | Cls string
  | NCls string
  | Seq regex regex
  | Alt regex regex
  | Star regex
  | Bol
  | Eol
  | WordB
  | NotBehind string
  | NotAhead string
  | Grp regex

text \<open>
  A matcher state is the character before the current position (none at the start of
  the string), the rest of the string, and the text of the group once it has closed.
  \<open>rmatch\<close> lists the states in which a match of the pattern can end, in the order in
  which a backtracking matcher tries them, so the head of the list is the match
  \<open>re\<close> reports.
\<close>

type_synonym mstate = "char option \<times> string \<times> string option"

definition is_word :: "char option \<Rightarrow> bool" where
  "is_word c = (case c of None \<Rightarrow> False | Some x \<Rightarrow> x \<in> set word_chars)"

definition next_char :: "string \<Rightarrow> char option" where
  "next_char s = (case s of [] \<Rightarrow> None | c # _ \<Rightarrow> Some c)"

text \<open>
  Greedy repetition: one more round first, stopping second. Every round must consume
  a character, so as many rounds as the rest is long are enough.
\<close>

fun star_iter :: "nat \<Rightarrow> (mstate \<Rightarrow> mstate list) \<Rightarrow> mstate \<Rightarrow> mstate list" where
  "star_iter 0 step st = [st]"
| "star_iter (Suc n) step st =
     concat (map (star_iter n step)
               (filter (\<lambda>st'. length (fst (snd st')) < length (fst (snd st))) (step st)))
     @ [st]"

primrec rmatch :: "regex \<Rightarrow> mstate \<Rightarrow> mstate list" where
  "rmatch (Lit s) st =
     (case st of (prev, rest, grp) \<Rightarrow>
        if startswith rest s
        then [(if s = [] then prev else Some (last s), drop (length s) rest, grp)]
        else [])"
| "rmatch (Cls cs) st =
     (case st of (prev, rest, grp) \<Rightarrow>
        (case rest of [] \<Rightarrow> []
         | c # rest' \<Rightarrow> if c \<in> set cs then [(Some c, rest', grp)] else []))"
| "rmatch (NCls cs) st =
     (case st of (prev, rest, grp) \<Rightarrow>
        (case rest of [] \<Rightarrow> []
         | c # rest' \<Rightarrow> if c \<notin> set cs then [(Some c, rest', grp)] else []))"
| "rmatch (Seq a b) st = concat (map (rmatch b) (rmatch a st))"
| "rmatch (Alt a b) st = rmatch a st @ rmatch b st"
| "rmatch (Star a) st = star_iter (length (fst (snd st))) (rmatch a) st"
| "rmatch Bol st = (case st of (prev, rest, grp) \<Rightarrow> if prev = None then [st] else [])"
| "rmatch Eol st =
     (case st of (prev, rest, grp) \<Rightarrow> if rest = [] \<or> rest = [CHR 0x0A] then [st] else [])"
| "rmatch WordB st =
     (case st of (prev, rest, grp) \<Rightarrow>
        if is_word prev \<noteq> is_word (next_char rest) then [st] else [])"
| "rmatch (NotBehind cs) st =
     (case st of (prev, rest, grp) \<Rightarrow>
        (case prev of None \<Rightarrow> [st] | Some c \<Rightarrow> if c \<in> set cs then [] else [st]))"
| "rmatch (NotAhead cs) st =
     (case st of (prev, rest, grp) \<Rightarrow>
        (case rest of [] \<Rightarrow> [st] | c # _ \<Rightarrow> if c \<in> set cs then [] else [st]))"
| "rmatch (Grp a) st =
     map (\<lambda>st'. (fst st', fst (snd st'),
                 Some (take (length (fst (snd st)) - length (fst (snd st'))) (fst (snd st)))))
         (rmatch a st)"

text \<open>\<open>a+\<close>, and sequences and alternations of several patterns.\<close>

definition Plus :: "regex \<Rightarrow> regex" where
  "Plus a = Seq a (Star a)"

fun seqs :: "regex list \<Rightarrow> regex" where
  "seqs [] = Lit []"
| "seqs [a] = a"
| "seqs (a # b # rest) = Seq a (seqs (b # rest))"

fun alts :: "regex list \<Rightarrow> regex" where
  "alts [] = NCls []"
| "alts [a] = a"
| "alts (a # b # rest) = Alt a (alts (b # rest))"

text \<open>
  \<open>re.match\<close> tries the pattern at the start of the string, \<open>re.search\<close> at every
  position from the left.
\<close>

definition re_match :: "regex \<Rightarrow> string \<Rightarrow> mstate option" where
  "re_match r s = (case rmatch r (None, s, None) of [] \<Rightarrow> None | st # _ \<Rightarrow> Some st)"

fun search_from :: "regex \<Rightarrow> char option \<Rightarrow> string \<Rightarrow> mstate option" where
  "search_from r prev [] = (case rmatch r (prev, [], None) of [] \<Rightarrow> None | st # _ \<Rightarrow> Some st)"
| "search_from r prev (c # cs) =
     (case rmatch r (prev, c # cs, None) of
        [] \<Rightarrow> search_from r (Some c) cs
      | st # _ \<Rightarrow> Some st)"

definition re_search :: "regex \<Rightarrow> string \<Rightarrow> bool" where
  "re_search r s = (search_from r None s \<noteq> None)"

section \<open>Syntax check: \<open>run_syntax_check\<close>\<close>

text \<open>
  \<open>s.splitlines()\<close> on ASCII text: a line ends at a line feed, a carriage return (with a
  following line feed, if any), a vertical tab, a form feed or one of the separators
  \<open>0x1C\<close> to \<open>0x1E\<close>; the line ends are dropped.
\<close>

definition line_breaks :: string where
  "line_breaks = [CHR 0x0A, CHR 0x0D, CHR 0x0B, CHR 0x0C, CHR 0x1C, CHR 0x1D, CHR 0x1E]"

fun split_acc :: "string \<Rightarrow> string \<Rightarrow> string list" where
  "split_acc cur [] = (if cur = [] then [] else [cur])"
| "split_acc cur [c] = (if c \<in> set line_breaks then [cur] else [cur @ [c]])"
| "split_acc cur (c # d # cs) =
     (if c = CHR 0x0D \<and> d = CHR 0x0A then cur # split_acc [] cs
      else if c \<in> set line_breaks then cur # split_acc [] (d # cs)
      else split_acc (cur @ [c]) (d # cs))"

definition splitlines :: "string \<Rightarrow> string list" where
  "splitlines s = split_acc [] s"

text \<open>\<open>"\n".join(ls)\<close> and the slice \<open>xs[a:b]\<close> for \<open>0 \<le> a\<close>, \<open>0 \<le> b\<close>.\<close>

fun join_lines :: "string list \<Rightarrow> string" where
  "join_lines [] = []"
| "join_lines [l] = l"
| "join_lines (l # m # ls) = l @ [NL] @ join_lines (m # ls)"

definition slice :: "'a list \<Rightarrow> nat \<Rightarrow> nat \<Rightarrow> 'a list" where
  "slice xs a b = take (b - a) (drop a xs)"

text \<open>
  The interpreter is a parameter of the model. \<open>compile(src, name, 'exec')\<close> returns,
  raises \<open>IndentationError\<close>, or raises another \<open>SyntaxError\<close>, each error with its
  \<open>lineno\<close> (possibly \<open>None\<close>) and \<open>msg\<close>. \<open>tokenize.generate_tokens\<close> runs through,
  raises \<open>IndentationError\<close>, or raises \<open>TokenError\<close>. Other exceptions of the
  interpreter (the \<open>ValueError\<close> of older versions on a source with a null byte, for
  one), which no pass catches, are outside the model.
\<close>

datatype parse_result =
    Parsed
  | IndentationError_at "int option" string
  | SyntaxError_at "int option" string

datatype tokenize_result =
    Tokenized
  | TokenIndentationError "int option" string
  | TokenError

text \<open>\<open>e.lineno or 1\<close>\<close>

definition lineno_or_1 :: "int option \<Rightarrow> int" where
  "lineno_or_1 lineno = (case lineno of None \<Rightarrow> 1 | Some n \<Rightarrow> if n = 0 then 1 else n)"

text \<open>
  The closure \<open>_add\<close>: the list \<open>errors\<close> it appends to is passed in and returned.
\<close>

definition add_error ::
  "finding list \<Rightarrow> string \<Rightarrow> int \<Rightarrow> string \<Rightarrow> string \<Rightarrow> string \<Rightarrow> finding list" where
  "add_error errors rel_path line_no message bug_type source =
     (let already = list_ex (\<lambda>e. e_file e = rel_path \<and> e_line e = line_no) errors in
      if \<not> already
      then errors @ [\<lparr>e_file = rel_path, e_line = line_no, e_message = message,
                         e_type = bug_type, e_source = source\<rparr>]
      else errors)"

text \<open>
  A file of the working copy: its path relative to the clone directory, its text
  (none when \<open>open\<close> raises \<open>OSError\<close>), and what the first matching pattern extracts
  from the output of \<open>python3 -m py_compile\<close>: the path, the line number and the message
  (none when the command succeeds or no pattern matches).
\<close>

record source_file =
  sf_rel_path :: string
  sf_content :: "string option"
  sf_py_compile :: "(string \<times> nat \<times> string) option"

text \<open>\<open>re.match(r'^(?:def|class|async\s+def)\s', stripped) and i > 0\<close>\<close>

definition header_re :: regex where
  "header_re =
     seqs [Bol,
           alts [Lit ''def'', Lit ''class'',
                 seqs [Lit ''async'', Plus (Cls space_chars), Lit ''def'']],
           Cls space_chars]"

definition is_new_block :: "nat \<Rightarrow> string \<Rightarrow> bool" where
  "is_new_block i raw_line = (re_match header_re (strip raw_line) \<noteq> None \<and> i > 0)"

text \<open>
  Pass 4, the body of \<open>if is_new_block or i == len(lines) - 1\<close>: the block is compiled,
  and after a syntax error its body is compiled without the header line.
\<close>

definition compile_block ::
  "(string \<Rightarrow> parse_result) \<Rightarrow> string \<Rightarrow> string list \<Rightarrow> nat \<Rightarrow> finding list \<Rightarrow> finding list" where
  "compile_block compile rel_path block_lines block_start errors =
     (let block_src = join_lines block_lines in
      if strip block_src \<noteq> [] then
        (case compile block_src of
           Parsed \<Rightarrow> errors
         | IndentationError_at lineno msg \<Rightarrow>
             add_error errors rel_path (int block_start + lineno_or_1 lineno)
               (''IndentationError: '' @ msg) ''INDENTATION'' ''block_scan''
         | SyntaxError_at lineno msg \<Rightarrow>
             if length block_lines > 1 then
               (let body_src = join_lines (tl block_lines) in
                if strip body_src \<noteq> [] then
                  (case compile body_src of
                     IndentationError_at body_lineno body_msg \<Rightarrow>
                       add_error errors rel_path (int block_start + 1 + lineno_or_1 body_lineno)
                         (''IndentationError: '' @ body_msg) ''INDENTATION'' ''block_scan''
                   | _ \<Rightarrow> errors)
                else errors)
             else errors)
      else errors)"

text \<open>One round of \<open>for i, raw_line in enumerate(lines)\<close>, and the loop.\<close>

definition block_step ::
  "(string \<Rightarrow> parse_result) \<Rightarrow> string \<Rightarrow> string list \<Rightarrow> nat \<times> finding list
     \<Rightarrow> nat \<times> string \<Rightarrow> nat \<times> finding list" where
  "block_step compile rel_path lines state item =
     (case state of (block_start, errors) \<Rightarrow>
      case item of (i, raw_line) \<Rightarrow>
        if is_new_block i raw_line \<or> int i = int (length lines) - 1 then
          (let block_lines = slice lines block_start (if is_new_block i raw_line then i else i + 1);
               errors' = compile_block compile rel_path block_lines block_start errors
           in (if is_new_block i raw_line then i else block_start, errors'))
        else (block_start, errors))"

definition block_scan ::
  "(string \<Rightarrow> parse_result) \<Rightarrow> string \<Rightarrow> string list \<Rightarrow> finding list \<Rightarrow> finding list" where
  "block_scan compile rel_path lines errors =
     snd (foldl (block_step compile rel_path lines) (0, errors) (enumerate 0 lines))"

text \<open>Passes 1 to 3.\<close>

definition tokenize_pass ::
  "(string \<Rightarrow> tokenize_result) \<Rightarrow> string \<Rightarrow> string \<Rightarrow> finding list \<Rightarrow> finding list" where
  "tokenize_pass tokenize rel_path content errors =
     (case tokenize content of
        TokenIndentationError lineno msg \<Rightarrow>
          add_error errors rel_path (lineno_or_1 lineno)
            (''IndentationError: '' @ msg) ''INDENTATION'' ''tokenize''
      | _ \<Rightarrow> errors)"

definition compile_pass ::
  "(string \<Rightarrow> parse_result) \<Rightarrow> string \<Rightarrow> string \<Rightarrow> finding list \<Rightarrow> finding list" where
  "compile_pass compile rel_path content errors =
     (case compile content of
        Parsed \<Rightarrow> errors
      | IndentationError_at lineno msg \<Rightarrow>
          add_error errors rel_path (lineno_or_1 lineno)
            (''IndentationError: '' @ msg) ''INDENTATION'' ''compile''
      | SyntaxError_at lineno msg \<Rightarrow>
          add_error errors rel_path (lineno_or_1 lineno)
            (''SyntaxError: '' @ msg) ''SYNTAX'' ''compile'')"

definition py_compile_pass ::
  "string \<Rightarrow> (string \<times> nat \<times> string) option \<Rightarrow> finding list \<Rightarrow> finding list" where
  "py_compile_pass cp report errors =
     (case report of
        None \<Rightarrow> errors
      | Some (rp, ln, msg) \<Rightarrow>
          add_error errors (normalize_path cp rp) (int ln) (take 200 (strip msg))
            (determine_bug_type msg) ''py_compile'')"

text \<open>
  The body of \<open>for py_file in python_files\<close>, and the whole check; \<open>cp\<close> is the clone
  path (without one the check returns the empty list) and \<open>python_files\<close> what
  \<open>get_python_files\<close> enumerates.
\<close>

definition check_file ::
  "string \<Rightarrow> (string \<Rightarrow> tokenize_result) \<Rightarrow> (string \<Rightarrow> parse_result) \<Rightarrow> source_file
     \<Rightarrow> finding list \<Rightarrow> finding list" where
  "check_file cp tokenize compile py_file errors =
     (case sf_content py_file of
        None \<Rightarrow> errors
      | Some content \<Rightarrow>
          block_scan compile (sf_rel_path py_file) (splitlines content)
            (py_compile_pass cp (sf_py_compile py_file)
               (compile_pass compile (sf_rel_path py_file) content
                  (tokenize_pass tokenize (sf_rel_path py_file) content errors))))"

definition run_syntax_check ::
  "string \<Rightarrow> (string \<Rightarrow> tokenize_result) \<Rightarrow> (string \<Rightarrow> parse_result) \<Rightarrow> source_file list
     \<Rightarrow> finding list" where
  "run_syntax_check cp tokenize compile python_files =
     foldl (\<lambda>errors py_file. check_file cp tokenize compile py_file errors) [] python_files"

text \<open>
  The two-block example of the specification, and the verdicts of CPython on the four
  sources the check hands to \<open>compile\<close> for it: the whole file and its first block
  lack the colon after \<open>def f()\<close> (a syntax error at line 1, worded
  \<open>expected ':'\<close> from Python 3.10 on), the body \<open>x = 1\<close> of the first block, compiled
  alone with its four leading blanks, is an unexpected indent at line 1, and the second
  block, whose body is indented by eight blanks, compiles. The output of
  \<open>py_compile\<close> names the file, line 1 and the source line.
\<close>

definition two_block_source :: string where
  "two_block_source =
     ''def f()'' @ [NL] @ ''    x = 1'' @ [NL] @ ''def g():'' @ [NL] @ ''        print(1)'' @ [NL]"

definition cpython_verdicts :: "string \<Rightarrow> parse_result" where
  "cpython_verdicts src =
     (if src = two_block_source then SyntaxError_at (Some 1) (''expected '' @ [CHR 0x27] @ '':'' @ [CHR 0x27])
      else if src = ''def f()'' @ [NL] @ ''    x = 1''
        then SyntaxError_at (Some 1) (''expected '' @ [CHR 0x27] @ '':'' @ [CHR 0x27])
      else if src = ''    x = 1'' then IndentationError_at (Some 1) ''unexpected indent''
      else Parsed)"

definition two_block_file :: source_file where
  "two_block_file =
     \<lparr>sf_rel_path = ''a.py'', sf_content = Some two_block_source,
      sf_py_compile = Some (''/repo/a.py'', 1, ''def f()'')\<rparr>"

text \<open>
  One list of findings grows into another when it is a prefix of it and the keys stay
  distinct.
\<close>

definition grows :: "finding list \<Rightarrow> finding list \<Rightarrow> bool" where
  "grows errors errors' \<longleftrightarrow>
     (\<exists>extra. errors' = errors @ extra)
     \<and> (distinct (map key_of errors) \<longrightarrow> distinct (map key_of errors'))"

section \<open>Pattern Scanner: \<open>run_regex_pattern_detection\<close>\<close>







































section \<open>Properties of the string helpers\<close>



section \<open>Properties of the classifier\<close>








section \<open>Properties of the aggregator\<close>



lemma dict_set_fresh: "map_of kvs k = None \<Longrightarrow> dict_set k v kvs = kvs @ [(k, v)]"
  by (induction kvs) (auto split: if_splits)

lemma map_fst_dict_set_present:
  "map_of kvs k = Some v' \<Longrightarrow> map fst (dict_set k v kvs) = map fst kvs"
  by (induction kvs) (auto split: if_splits)

lemma set_dict_set: "set (dict_set k v kvs) \<subseteq> insert (k, v) (set kvs)"
  by (induction kvs) (auto split: if_splits)

lemma map_fst_dict_set_fresh:
  "map_of kvs k = None \<Longrightarrow> map fst (dict_set k v kvs) = map fst kvs @ [k]"
  by (simp add: dict_set_fresh)

lemma distinct_dict_set:
  "distinct (map fst kvs) \<Longrightarrow> distinct (map fst (dict_set k v kvs))"
proof (cases "map_of kvs k")
  case None
  assume "distinct (map fst kvs)"
  moreover from None have "k \<notin> fst ` set kvs" by (simp add: map_of_eq_None_iff)
  ultimately show ?thesis using None by (simp add: map_fst_dict_set_fresh)
next
  case (Some v')
  assume "distinct (map fst kvs)"
  then show ?thesis using Some by (simp add: map_fst_dict_set_present)
qed



lemma merge_loop_invariant:
  assumes "distinct (map fst best)"
    and "\<forall>(k, v) \<in> set best. k = key_of v \<and> P v"
    and "\<forall>e \<in> set es. \<not> is_doc_path (normalize_path cp (e_file e)) \<longrightarrow> P (normalized cp e)"
  shows "distinct (map fst (merge_loop cp es best))
         \<and> (\<forall>(k, v) \<in> set (merge_loop cp es best). k = key_of v \<and> P v)"
  using assms
proof (induction es arbitrary: best)
  case Nil
  then show ?case by simp
next
  case (Cons e es)
  let ?fp = "normalize_path cp (e_file e)"
  let ?e' = "e\<lparr>e_file := ?fp\<rparr>"
  let ?key = "(?fp, e_line e)"
  have rest: "\<forall>e \<in> set es. \<not> is_doc_path (normalize_path cp (e_file e)) \<longrightarrow> P (normalized cp e)"
    using Cons.prems(3) by simp
  show ?case
  proof (cases "is_doc_path ?fp")
    case True
    then show ?thesis using Cons.IH [OF Cons.prems(1,2) rest] by (simp add: Let_def)
  next
    case False
    then have pe: "P ?e'" using Cons.prems(3) by (simp add: normalized_def)
    have d: "distinct (map fst (dict_set ?key ?e' best))"
      using Cons.prems(1) by (rule distinct_dict_set)
    have "\<forall>(k, v) \<in> insert (?key, ?e') (set best). k = key_of v \<and> P v"
      using Cons.prems(2) pe by (simp add: key_of_def)
    then have i: "\<forall>(k, v) \<in> set (dict_set ?key ?e' best). k = key_of v \<and> P v"
      using set_dict_set [of ?key ?e' best] by blast
    show ?thesis
      using False Cons.IH [OF d i rest] Cons.IH [OF Cons.prems(1,2) rest]
      by (simp add: Let_def split: option.split)
  qed
qed


lemma merge_loop_keys:
  "distinct (map fst (merge_loop cp es [])) \<and>
   (\<forall>(k, v) \<in> set (merge_loop cp es []). k = key_of v)"
  using merge_loop_invariant [of "[]" "\<lambda>_. True" es cp] by simp

lemma map_key_of_unique_errors:
  "map key_of (unique_errors cp es) = map fst (merge_loop cp es [])"
  using merge_loop_keys [of cp es] by (auto simp: unique_errors_def)

lemma distinct_keys_unique_errors: "distinct (map key_of (unique_errors cp es))"
  using merge_loop_keys [of cp es] by (simp add: map_key_of_unique_errors)


lemma merge_loop_fixed:
  assumes "\<forall>v \<in> set xs. \<not> is_doc_path (e_file v) \<and> normalize_path cp (e_file v) = e_file v"
    and "distinct (map key_of xs)"
    and "key_of ` set xs \<inter> fst ` set best = {}"
  shows "merge_loop cp xs best = best @ map (\<lambda>v. (key_of v, v)) xs"
  using assms
proof (induction xs arbitrary: best)
  case Nil
  then show ?case by simp
next
  case (Cons x xs)
  have same: "x\<lparr>e_file := e_file x\<rparr> = x" by simp
  have fresh: "map_of best (key_of x) = None"
    using Cons.prems(3) by (auto simp: map_of_eq_None_iff)
  have step: "merge_loop cp (x # xs) best = merge_loop cp xs (best @ [(key_of x, x)])"
    using Cons.prems(1) fresh by (simp add: Let_def key_of_def same dict_set_fresh)
  have "key_of ` set xs \<inter> fst ` set (best @ [(key_of x, x)]) = {}"
    using Cons.prems(2,3) by auto
  with Cons.IH [of "best @ [(key_of x, x)]"] Cons.prems(1,2)
  have "merge_loop cp xs (best @ [(key_of x, x)])
          = (best @ [(key_of x, x)]) @ map (\<lambda>v. (key_of v, v)) xs" by simp
  with step show ?case by simp
qed

lemma unique_errors_fixed:
  assumes "\<forall>v \<in> set xs. \<not> is_doc_path (e_file v) \<and> normalize_path cp (e_file v) = e_file v"
    and "distinct (map key_of xs)"
  shows "unique_errors cp xs = xs"
  using merge_loop_fixed [OF assms, of "[]"] by (simp add: unique_errors_def comp_def)

lemma unique_errors_stable:
  assumes "\<forall>e \<in> set es. normalize_path cp (normalize_path cp (e_file e)) = normalize_path cp (e_file e)"
  shows "\<forall>v \<in> set (unique_errors cp es).
           \<not> is_doc_path (e_file v) \<and> normalize_path cp (e_file v) = e_file v"
proof -
  let ?P = "\<lambda>v. \<not> is_doc_path (e_file v) \<and> normalize_path cp (e_file v) = e_file v"
  have "\<forall>e \<in> set es. \<not> is_doc_path (normalize_path cp (e_file e)) \<longrightarrow> ?P (normalized cp e)"
    using assms by (simp add: normalized_def)
  from merge_loop_invariant [of "[]" ?P es cp, OF _ _ this]
  have "\<forall>(k, v) \<in> set (merge_loop cp es []). k = key_of v \<and> ?P v" by simp
  then show ?thesis by (force simp: unique_errors_def)
qed

text \<open>
  C8, as amended. The aggregation stage is idempotent on every stream whose paths
  are stable once normalized: when normalizing an already normalized path changes
  nothing, aggregating the aggregated list returns it unchanged.
\<close>

theorem aggregation_idempotent_on_stable_paths:
  assumes "\<forall>e \<in> set es. normalize_path cp (normalize_path cp (e_file e)) = normalize_path cp (e_file e)"
  shows "run_comprehensive_analysis cp max_fixes (run_comprehensive_analysis cp max_fixes es)
         = run_comprehensive_analysis cp max_fixes es"
proof -
  let ?out = "take max_fixes (unique_errors cp es)"
  have "\<forall>v \<in> set ?out. \<not> is_doc_path (e_file v) \<and> normalize_path cp (e_file v) = e_file v"
    using unique_errors_stable [OF assms] by (meson in_set_takeD)
  moreover have "distinct (map key_of ?out)"
    using distinct_keys_unique_errors [of cp es] by (simp add: take_map [symmetric])
  ultimately have "unique_errors cp ?out = ?out" by (rule unique_errors_fixed)
  then show ?thesis by (simp add: run_comprehensive_analysis_def)
qed

text \<open>
  C8, as stated, fails: deleting the clone-path prefix can expose a new occurrence of
  it, so a second aggregation rewrites the path once more.
\<close>

theorem aggregation_not_idempotent:
  "run_comprehensive_analysis ''/repo'' 50
     (run_comprehensive_analysis ''/repo'' 50 [nested_clone_finding])
   \<noteq> run_comprehensive_analysis ''/repo'' 50 [nested_clone_finding]"
  by (simp add: run_comprehensive_analysis_def unique_errors_def nested_clone_finding_def
      normalize_path_def is_doc_path_def Let_def)

theorem aggregation_idempotent_witness:
  "run_comprehensive_analysis ''/repo'' 50
     (run_comprehensive_analysis ''/repo'' 50 [plain_finding, plain_finding])
   = run_comprehensive_analysis ''/repo'' 50 [plain_finding, plain_finding]
   \<and> run_comprehensive_analysis ''/repo'' 50 [plain_finding, plain_finding]
       = [plain_finding\<lparr>e_file := ''pkg/b.py''\<rparr>]"
proof -
  have n: "normalize_path ''/repo'' ''/repo/pkg/b.py'' = ''pkg/b.py''"
    by (simp add: normalize_path_def)
  have n2: "normalize_path ''/repo'' ''pkg/b.py'' = ''pkg/b.py''"
    by (simp add: normalize_path_def)
  have "\<forall>e \<in> set [plain_finding, plain_finding].
          normalize_path ''/repo'' (normalize_path ''/repo'' (e_file e))
          = normalize_path ''/repo'' (e_file e)"
    by (simp add: plain_finding_def n n2)
  from aggregation_idempotent_on_stable_paths [OF this, of 50]
  have idem: "run_comprehensive_analysis ''/repo'' 50
     (run_comprehensive_analysis ''/repo'' 50 [plain_finding, plain_finding])
   = run_comprehensive_analysis ''/repo'' 50 [plain_finding, plain_finding]" .
  have "run_comprehensive_analysis ''/repo'' 50 [plain_finding, plain_finding]
       = [plain_finding\<lparr>e_file := ''pkg/b.py''\<rparr>]"
    by (simp add: run_comprehensive_analysis_def unique_errors_def plain_finding_def n
        is_doc_path_def Let_def)
  with idem show ?thesis by simp
qed



section \<open>Properties of \<open>apply_fix\<close>\<close>

text \<open>
  C4. A fix whose line number exceeds the number of lines of its file is not applied:
  \<open>apply_fix\<close> returns \<open>False\<close> and leaves the working copy alone. The claim adds that
  the status becomes FAILED; the code returns from the out-of-range branch without
  touching the status, so the fix keeps the status it came with.
\<close>

theorem apply_fix_out_of_range_keeps_status:
  assumes "fs (fix_file fix) = Regular lines writable"
    and "int (length lines) < fix_line fix"
  shows "apply_fix (Some cp) fs fix = Inr (False, fix, fs)"
  using assms by (simp add: apply_fix_def)

theorem apply_fix_out_of_range_not_failed:
  "apply_fix (Some ''/repo'') three_line_file out_of_range_fix
     = Inr (False, out_of_range_fix, three_line_file)
   \<and> fix_status out_of_range_fix = ''DETECTED''
   \<and> fix_status out_of_range_fix \<noteq> ''FAILED''"
proof -
  have "three_line_file (fix_file out_of_range_fix)
          = Regular [''import os'' @ [NL], ''x = 1'' @ [NL], ''print(x)'' @ [NL]] True"
    by (simp add: three_line_file_def out_of_range_fix_def)
  moreover have "int (length [''import os'' @ [NL], ''x = 1'' @ [NL], ''print(x)'' @ [NL]])
                   < fix_line out_of_range_fix"
    by (simp add: out_of_range_fix_def)
  ultimately have "apply_fix (Some ''/repo'') three_line_file out_of_range_fix
     = Inr (False, out_of_range_fix, three_line_file)"
    by (rule apply_fix_out_of_range_keeps_status)
  then show ?thesis by (simp add: out_of_range_fix_def)
qed

section \<open>Properties of the Dynamic Executor\<close>


lemma set_first_per_key: "set (first_per_key key xs) \<subseteq> set xs"
  by (induction key xs rule: first_per_key.induct) auto










text \<open>
  C9. Line numbers are meant to be at least 1, and the passes that read them off the
  parser take care of it (\<open>e.lineno or 1\<close>). The dynamic pass takes whatever integer
  a line of the captured output carries: a module that prints \<open>{"line": 0}\<close> yields
  a finding, and from it a fix, at line 0.
\<close>

theorem dynamic_finding_line_zero:
  "analyze_single_file printing_module ''m.py'' ample = Inr [line_zero_finding]
   \<and> e_line line_zero_finding = 0
   \<and> fix_line (make_fix line_zero_finding ''review the code manually for correctness'') = 0"
  by (simp add: analyze_single_file_def printing_module_def ample_def func_names_def
      runner_stdout_def call_stdout_def quiet_def Let_def record_key_def get_line_def
      get_exc_def dynamic_finding_def get_file_def get_msg_def map_exception_to_bug_type_def
      EXCEPTION_TYPES_def line_zero_finding_def make_fix_def)

section \<open>Properties of the syntax check\<close>

lemma grows_refl: "grows errors errors"
  by (simp add: grows_def)

lemma grows_trans: "grows a b \<Longrightarrow> grows b c \<Longrightarrow> grows a c"
  by (auto simp: grows_def)

lemma add_error_recorded:
  "(rel_path, line_no) \<in> key_of ` set errors \<Longrightarrow>
   add_error errors rel_path line_no message bug_type source = errors"
  by (auto simp: add_error_def key_of_def list_ex_iff)

lemma grows_add_error: "grows errors (add_error errors rel_path line_no message bug_type source)"
proof (cases "(rel_path, line_no) \<in> key_of ` set errors")
  case True
  then show ?thesis by (simp add: add_error_recorded grows_refl)
next
  case False
  then have "\<not> list_ex (\<lambda>e. e_file e = rel_path \<and> e_line e = line_no) errors"
    by (force simp: key_of_def list_ex_iff)
  then have "add_error errors rel_path line_no message bug_type source
               = errors @ [\<lparr>e_file = rel_path, e_line = line_no, e_message = message,
                              e_type = bug_type, e_source = source\<rparr>]"
    by (simp add: add_error_def)
  then show ?thesis using False by (simp add: grows_def key_of_def)
qed

lemma grows_compile_block: "grows errors (compile_block compile rel_path block_lines block_start errors)"
  by (simp add: compile_block_def Let_def grows_refl grows_add_error split: parse_result.split)

lemma grows_block_step:
  "grows (snd state) (snd (block_step compile rel_path lines state item))"
  by (cases state; cases item) (simp add: block_step_def Let_def grows_refl grows_compile_block)

lemma grows_foldl_block_step:
  "grows (snd state) (snd (foldl (block_step compile rel_path lines) state items))"
proof (induction items arbitrary: state)
  case Nil
  then show ?case by (simp add: grows_refl)
next
  case (Cons item items)
  have "grows (snd state) (snd (block_step compile rel_path lines state item))"
    by (rule grows_block_step)
  moreover have "grows (snd (block_step compile rel_path lines state item))
      (snd (foldl (block_step compile rel_path lines)
              (block_step compile rel_path lines state item) items))"
    by (rule Cons.IH)
  ultimately show ?case by (auto intro: grows_trans)
qed

lemma grows_block_scan: "grows errors (block_scan compile rel_path lines errors)"
  using grows_foldl_block_step [of "(0, errors)" compile rel_path lines "enumerate 0 lines"]
  by (simp add: block_scan_def)

lemma grows_tokenize_pass: "grows errors (tokenize_pass tokenize rel_path content errors)"
  by (simp add: tokenize_pass_def grows_refl grows_add_error split: tokenize_result.split)

lemma grows_compile_pass: "grows errors (compile_pass compile rel_path content errors)"
  by (simp add: compile_pass_def grows_refl grows_add_error split: parse_result.split)

lemma grows_py_compile_pass: "grows errors (py_compile_pass cp report errors)"
  by (simp add: py_compile_pass_def grows_refl grows_add_error split: option.split)

lemma grows_check_file: "grows errors (check_file cp tokenize compile py_file errors)"
proof (cases "sf_content py_file")
  case None
  then show ?thesis by (simp add: check_file_def grows_refl)
next
  case (Some content)
  let ?rel = "sf_rel_path py_file"
  let ?e1 = "tokenize_pass tokenize ?rel content errors"
  let ?e2 = "compile_pass compile ?rel content ?e1"
  let ?e3 = "py_compile_pass cp (sf_py_compile py_file) ?e2"
  have "grows errors ?e1" by (rule grows_tokenize_pass)
  moreover have "grows ?e1 ?e2" by (rule grows_compile_pass)
  moreover have "grows ?e2 ?e3" by (rule grows_py_compile_pass)
  moreover have "grows ?e3 (block_scan compile ?rel (splitlines content) ?e3)"
    by (rule grows_block_scan)
  ultimately have "grows errors (block_scan compile ?rel (splitlines content) ?e3)"
    by (blast intro: grows_trans)
  then show ?thesis using Some by (simp add: check_file_def)
qed

lemma grows_foldl_check_file:
  "grows errors (foldl (\<lambda>errors py_file. check_file cp tokenize compile py_file errors)
                   errors python_files)"
proof (induction python_files arbitrary: errors)
  case Nil
  then show ?case by (simp add: grows_refl)
next
  case (Cons py_file python_files)
  show ?case
    using grows_check_file [of errors cp tokenize compile py_file]
      Cons.IH [of "check_file cp tokenize compile py_file errors"]
    by (auto intro: grows_trans)
qed

text \<open>
  C10. Within one \<open>run_syntax_check\<close> the recorded (file, line) keys are pairwise
  distinct; processing a file only appends to the list, so an entry once recorded is
  neither replaced nor removed; and \<open>_add\<close> on a recorded key leaves the list as it
  is, whatever category the later pass brings.
\<close>

theorem syntax_check_first_record_wins:
  "distinct (map key_of (run_syntax_check cp tokenize compile python_files))
   \<and> (distinct (map key_of errors) \<longrightarrow>
        distinct (map key_of (check_file cp tokenize compile py_file errors)))
   \<and> (\<exists>extra. check_file cp tokenize compile py_file errors = errors @ extra)
   \<and> ((rel_path, line_no) \<in> key_of ` set errors \<longrightarrow>
        add_error errors rel_path line_no message bug_type source = errors)"
proof -
  have "grows [] (run_syntax_check cp tokenize compile python_files)"
    unfolding run_syntax_check_def by (rule grows_foldl_check_file)
  then have "distinct (map key_of (run_syntax_check cp tokenize compile python_files))"
    by (simp add: grows_def)
  moreover have "grows errors (check_file cp tokenize compile py_file errors)"
    by (rule grows_check_file)
  ultimately show ?thesis by (auto simp: grows_def add_error_recorded)
qed

theorem syntax_check_first_record_wins_witness:
  "distinct (map key_of (run_syntax_check ''/repo'' (\<lambda>src. Tokenized) cpython_verdicts [two_block_file]))
   \<and> (\<exists>extra. check_file ''/repo'' (\<lambda>src. Tokenized) cpython_verdicts two_block_file [syntax_finding]
               = [syntax_finding] @ extra)
   \<and> add_error [syntax_finding] ''/repo/app.py'' 3 ''IndentationError: unexpected indent''
         ''INDENTATION'' ''block_scan'' = [syntax_finding]"
proof -
  have "(''/repo/app.py'', 3) \<in> key_of ` set [syntax_finding]"
    by (simp add: key_of_def syntax_finding_def)
  with syntax_check_first_record_wins
         [of "''/repo''" "\<lambda>src. Tokenized" cpython_verdicts "[two_block_file]" "[syntax_finding]"
             two_block_file "''/repo/app.py''" 3 "''IndentationError: unexpected indent''"
             "''INDENTATION''" "''block_scan''"]
  show ?thesis by blast
qed

lemma strip_indent:
  assumes "set indent \<subseteq> set space_chars"
  shows "strip (indent @ raw_line) = strip raw_line"
proof -
  have "dropWhile (\<lambda>c. c \<in> set space_chars) (indent @ raw_line)
          = dropWhile (\<lambda>c. c \<in> set space_chars) raw_line"
    using assms by (intro dropWhile_append2) auto
  then show ?thesis by (simp add: strip_def)
qed

text \<open>
  C5. A new block should start only where the keyword stands at column 0. The scan
  matches the pattern against the stripped line, so leading white space makes no
  difference: an indented, nested definition starts a block as well.
\<close>

theorem block_boundary_ignores_indentation:
  assumes "set indent \<subseteq> set space_chars"
  shows "is_new_block i (indent @ raw_line) = is_new_block i raw_line"
  using strip_indent [OF assms] by (simp add: is_new_block_def)

lemmas regex_eval = re_match_def re_search_def Plus_def space_chars_def is_word_def
  next_char_def word_chars_def lower_letters_def upper_letters_def digit_chars_def

lemma is_new_block_def_line: "is_new_block 1 ''def inner():''"
  by (simp add: is_new_block_def header_re_def strip_def regex_eval)

theorem nested_definition_starts_block:
  "set ''    '' \<subseteq> set space_chars
   \<and> is_new_block 1 (''    '' @ ''def inner():'')"
proof -
  have s: "set ''    '' \<subseteq> set space_chars" by (simp add: space_chars_def)
  from block_boundary_ignores_indentation [OF s, of 1 "''def inner():''"] is_new_block_def_line s
  show ?thesis by blast
qed

lemmas scan_eval = run_syntax_check_def check_file_def tokenize_pass_def compile_pass_def
  py_compile_pass_def block_scan_def block_step_def compile_block_def add_error_def
  is_new_block_def header_re_def strip_def splitlines_def line_breaks_def slice_def
  lineno_or_1_def two_block_source_def NL_def Let_def

lemma two_block_scan:
  assumes "tokenize two_block_source = Tokenized"
    and "compile two_block_source = SyntaxError_at (Some 1) header_msg"
    and "compile (''def f()'' @ [NL] @ ''    x = 1'') = SyntaxError_at block_lineno block_msg"
    and "compile ''    x = 1'' = IndentationError_at (Some 1) body_msg"
    and "compile (''def g():'' @ [NL] @ ''        print(1)'') = Parsed"
    and "normalize_path cp rp = rel_path"
  shows "run_syntax_check cp tokenize compile
           [\<lparr>sf_rel_path = rel_path, sf_content = Some two_block_source,
             sf_py_compile = Some (rp, 1, py_msg)\<rparr>]
         = [\<lparr>e_file = rel_path, e_line = 1, e_message = ''SyntaxError: '' @ header_msg,
              e_type = ''SYNTAX'', e_source = ''compile''\<rparr>,
            \<lparr>e_file = rel_path, e_line = 2, e_message = ''IndentationError: '' @ body_msg,
              e_type = ''INDENTATION'', e_source = ''block_scan''\<rparr>]"
  using assms by (simp add: scan_eval regex_eval)

text \<open>
  C3, as amended. On the two-block file, with an interpreter that reports the missing
  colon of the file and of block 1 as syntax errors, the body of block 1 compiled alone
  as an unexpected indent at its line 1, and block 2 as fine, \<open>run_syntax_check\<close>
  records the syntax error at line 1 and exactly one INDENTATION finding, at line 2,
  the body line of block 1; the failure of block 1 does not keep the scan from
  compiling block 2, which yields nothing for line 4.
\<close>

theorem block_scan_two_block_example:
  assumes "tokenize two_block_source = Tokenized"
    and "compile two_block_source = SyntaxError_at (Some 1) header_msg"
    and "compile (''def f()'' @ [NL] @ ''    x = 1'') = SyntaxError_at block_lineno block_msg"
    and "compile ''    x = 1'' = IndentationError_at (Some 1) body_msg"
    and "compile (''def g():'' @ [NL] @ ''        print(1)'') = Parsed"
    and "normalize_path cp rp = rel_path"
  shows "run_syntax_check cp tokenize compile
           [\<lparr>sf_rel_path = rel_path, sf_content = Some two_block_source,
             sf_py_compile = Some (rp, 1, py_msg)\<rparr>]
         = [\<lparr>e_file = rel_path, e_line = 1, e_message = ''SyntaxError: '' @ header_msg,
              e_type = ''SYNTAX'', e_source = ''compile''\<rparr>,
            \<lparr>e_file = rel_path, e_line = 2, e_message = ''IndentationError: '' @ body_msg,
              e_type = ''INDENTATION'', e_source = ''block_scan''\<rparr>]"
  using assms by (rule two_block_scan)

lemma cpython_verdicts_example:
  "cpython_verdicts two_block_source = SyntaxError_at (Some 1) (''expected '' @ [CHR 0x27] @ '':'' @ [CHR 0x27])"
  "cpython_verdicts (''def f()'' @ [NL] @ ''    x = 1'')
     = SyntaxError_at (Some 1) (''expected '' @ [CHR 0x27] @ '':'' @ [CHR 0x27])"
  "cpython_verdicts ''    x = 1'' = IndentationError_at (Some 1) ''unexpected indent''"
  "cpython_verdicts (''def g():'' @ [NL] @ ''        print(1)'') = Parsed"
  by (simp_all add: cpython_verdicts_def two_block_source_def NL_def)

lemma normalize_repo_a: "normalize_path ''/repo'' ''/repo/a.py'' = ''a.py''"
  by (simp add: normalize_path_def)

theorem block_scan_two_block_witness:
  "run_syntax_check ''/repo'' (\<lambda>src. Tokenized) cpython_verdicts [two_block_file]
     = [\<lparr>e_file = ''a.py'', e_line = 1,
          e_message = ''SyntaxError: '' @ ''expected '' @ [CHR 0x27] @ '':'' @ [CHR 0x27],
          e_type = ''SYNTAX'', e_source = ''compile''\<rparr>,
        \<lparr>e_file = ''a.py'', e_line = 2, e_message = ''IndentationError: '' @ ''unexpected indent'',
          e_type = ''INDENTATION'', e_source = ''block_scan''\<rparr>]"
  unfolding two_block_file_def
  by (rule block_scan_two_block_example [OF refl cpython_verdicts_example normalize_repo_a])

text \<open>
  C3, as stated, fails: the one INDENTATION finding is at line 2, and there is none at
  line 4.
\<close>

theorem block_scan_reports_line_2_not_4:
  "filter (\<lambda>e. e_type e = ''INDENTATION'')
     (run_syntax_check ''/repo'' (\<lambda>src. Tokenized) cpython_verdicts [two_block_file])
     = [\<lparr>e_file = ''a.py'', e_line = 2, e_message = ''IndentationError: unexpected indent'',
          e_type = ''INDENTATION'', e_source = ''block_scan''\<rparr>]
   \<and> \<not> list_ex (\<lambda>e. e_type e = ''INDENTATION'' \<and> e_line e = 4)
         (run_syntax_check ''/repo'' (\<lambda>src. Tokenized) cpython_verdicts [two_block_file])"
proof -
  have "run_syntax_check ''/repo'' (\<lambda>src. Tokenized) cpython_verdicts [two_block_file]
     = [\<lparr>e_file = ''a.py'', e_line = 1,
          e_message = ''SyntaxError: '' @ ''expected '' @ [CHR 0x27] @ '':'' @ [CHR 0x27],
          e_type = ''SYNTAX'', e_source = ''compile''\<rparr>,
        \<lparr>e_file = ''a.py'', e_line = 2, e_message = ''IndentationError: '' @ ''unexpected indent'',
          e_type = ''INDENTATION'', e_source = ''block_scan''\<rparr>]"
    unfolding two_block_file_def
    by (rule two_block_scan [OF refl cpython_verdicts_example normalize_repo_a])
  then show ?thesis by simp
qed

section \<open>Properties of the Pattern Scanner\<close>











end
